theory Spec2Isabelle
  imports Complex_Main
begin

section \<open>Values and library functions the code relies on\<close>

text \<open>
  The bridge front end is three pieces of TypeScript: the \<open>Bridge\<close> component (with
  \<open>handleBridge\<close>, \<open>checkUSDTFeeRequirements\<close>, \<open>estimateFee\<close> and
  \<open>loadUserTransactions\<close>), the hook \<open>useBridgeContract\<close> (\<open>lockTokens\<close>,
  \<open>burnAndBridge\<close>, \<open>getTransaction\<close>, \<open>getUserTransactions\<close>,
  \<open>estimateBridgeFee\<close>, \<open>checkFeeRequirements\<close>) and the hook \<open>useDexContract\<close>
  (a second \<open>checkFeeRequirements\<close>, on the router).

  A JavaScript exception is a value of type \<open>error\<close>; a function that can throw returns
  \<open>error + 'a\<close>, with \<open>Inl\<close> for the exception.
\<close>

datatype error =
    BridgeContractNotAvailable
  | RouterNotAvailable
  | NoAddressProvided
  | InvalidValue
  | CallException string

text \<open>
  A JavaScript \<open>number\<close> as far as the code looks at it: \<open>parseFloat\<close> gives a
  finite value, an infinity, or \<open>NaN\<close>. Every comparison with \<open>NaN\<close> is false.
\<close>

datatype number = NaN | NegInfinity | PosInfinity | Finite real

fun le_zero :: "number \<Rightarrow> bool" where
  "le_zero NaN = False"
| "le_zero NegInfinity = True"
| "le_zero PosInfinity = False"
| "le_zero (Finite x) = (x \<le> 0)"

text \<open>
  The library functions the code calls and that are not part of the repository:
  \<open>ethers.parseEther\<close> (a decimal string to a \<open>bigint\<close> of wei, throwing on a string it
  does not accept), \<open>ethers.formatEther\<close> (the way back, throwing on a value outside its
  512-bit range) and the global \<open>parseFloat\<close>. They are parameters of the model; \<open>None\<close>
  is a thrown exception.
\<close>

record lib =
  parseEther :: "string \<Rightarrow> int option"
  formatEther :: "int \<Rightarrow> string option"
  parseFloat :: "string \<Rightarrow> number"

text \<open>Division of two \<open>bigint\<close>s truncates towards zero.\<close>

definition bigint_div :: "int \<Rightarrow> int \<Rightarrow> int" where
  "bigint_div a b = sgn a * sgn b * (\<bar>a\<bar> div \<bar>b\<bar>)"

section \<open>The wallet, the contracts and the operations issued to them\<close>

text \<open>
  \<open>useWallet()\<close> gives \<open>isConnected\<close>, \<open>account\<close>, \<open>chainId\<close> and a provider. The code
  only tests \<open>account\<close> and \<open>chainId\<close> for truthiness or passes them on, so the empty
  string stands for an absent account and \<open>0\<close> for an absent chain id (both are falsy, as
  \<open>null\<close> is). \<open>getSigner\<close> is the outcome of \<open>provider.getSigner()\<close>.
\<close>

record wallet =
  isConnected :: bool
  account :: string
  chainId :: nat
  getSigner :: "error + unit"

text \<open>An entry of the token list of \<open>getTokensByChain\<close>; \<open>tk_chainId\<close> is its \<open>chainId\<close>.\<close>

record token =
  tk_address :: string
  tk_symbol :: string
  tk_chainId :: nat

text \<open>
  A transaction sent to a contract: the call itself can throw, the wait for its
  confirmation can throw, or it is mined and \<open>wait()\<close> returns a receipt.
\<close>

type_synonym receipt = string

datatype tx_outcome = SendFails error | WaitFails error | Mined receipt

text \<open>What the ERC-20 contract at a token address answers.\<close>

record erc20_contract =
  erc_allowance :: "string \<Rightarrow> string \<Rightarrow> error + int"
  erc_approve :: "string \<Rightarrow> int \<Rightarrow> tx_outcome"

text \<open>
  The struct \<open>bridgeContract.getTransaction\<close> returns. The code reads every field through
  \<open>x || default\<close> or \<open>x ? f(x) : default\<close>, so an absent field and a falsy one (\<open>''\<close>,
  \<open>0\<close>) are the same to it, and the falsy value stands for both.
\<close>

record raw_transaction =
  raw_txId :: string
  raw_user :: string
  raw_token :: string
  raw_amount :: int
  raw_fee :: int
  raw_sourceChain :: nat
  raw_targetChain :: nat
  raw_targetAddress :: string
  raw_timestamp :: nat
  raw_status :: nat

text \<open>The struct \<open>supportedTokens\<close> returns; \<open>None\<close> is a struct without a \<open>fee\<close> field.\<close>

record token_info =
  ti_fee :: "int option"

text \<open>The struct the contracts' \<open>checkFeeRequirements\<close> returns.\<close>

record requirements =
  rq_hasBalance :: bool
  rq_hasAllowance :: bool
  rq_balance :: int
  rq_allowance :: int

text \<open>
  What the bridge contract answers to each call. \<open>bc_getUserTransactions\<close> may answer
  \<open>None\<close> (a nullish value, which the code replaces by the empty array).
\<close>

record bridge_contract =
  bc_getAddress :: "error + string"
  bc_lockTokens :: "string \<Rightarrow> int \<Rightarrow> nat \<Rightarrow> string \<Rightarrow> tx_outcome"
  bc_burnAndBridge :: "string \<Rightarrow> int \<Rightarrow> nat \<Rightarrow> string \<Rightarrow> tx_outcome"
  bc_getTransaction :: "string \<Rightarrow> error + raw_transaction"
  bc_getUserTransactions :: "string \<Rightarrow> error + string list option"
  bc_supportedTokens :: "string \<Rightarrow> error + token_info"
  bc_checkFeeRequirements :: "string \<Rightarrow> error + requirements"

record router_contract =
  rc_checkFeeRequirements :: "string \<Rightarrow> error + requirements"

text \<open>
  The operations the code issues, in the order it issues them. The two \<open>Hook_\<close> events
  are the component calling the hook's \<open>lockTokens\<close> or \<open>burnAndBridge\<close>; the others are
  calls on the signer, on a token contract, on the bridge contract or on the router.
\<close>

datatype event =
    Hook_lockTokens string string nat string
  | Hook_burnAndBridge string string nat string
  | Provider_getSigner
  | Bridge_getAddress
  | Token_allowance string string string
  | Token_approve string string int
  | Approve_wait
  | Bridge_lockTokens string int nat string
  | Lock_wait
  | Bridge_burnAndBridge string int nat string
  | Burn_wait
  | Bridge_getTransaction string
  | Bridge_getUserTransactions string
  | Bridge_supportedTokens string
  | Bridge_checkFeeRequirements string
  | Router_checkFeeRequirements string

text \<open>
  An asynchronous function is a run: the operations issued so far and either the
  exception that ended it or its value. \<open>bind_run\<close> is \<open>await\<close> followed by the rest of
  the body, \<open>catch_run\<close> a \<open>try\<close>/\<open>catch\<close>.
\<close>

type_synonym 'a run = "event list \<times> (error + 'a)"

definition return_run :: "'a \<Rightarrow> 'a run" where
  "return_run x = ([], Inr x)"

definition throw_run :: "error \<Rightarrow> 'a run" where
  "throw_run e = ([], Inl e)"

definition call :: "event \<Rightarrow> error + 'a \<Rightarrow> 'a run" where
  "call ev answer = ([ev], answer)"

definition bind_run :: "'a run \<Rightarrow> ('a \<Rightarrow> 'b run) \<Rightarrow> 'b run" where
  "bind_run m f =
     (case m of
        (t, Inl e) \<Rightarrow> (t, Inl e)
      | (t, Inr x) \<Rightarrow> (case f x of (t', r) \<Rightarrow> (t @ t', r)))"

definition catch_run :: "'a run \<Rightarrow> (error \<Rightarrow> 'a run) \<Rightarrow> 'a run" where
  "catch_run m h =
     (case m of
        (t, Inl e) \<Rightarrow> (case h e of (t', r) \<Rightarrow> (t @ t', r))
      | (t, Inr x) \<Rightarrow> (t, Inr x))"

definition of_option :: "'a option \<Rightarrow> 'a run" where
  "of_option v = (case v of None \<Rightarrow> throw_run InvalidValue | Some x \<Rightarrow> return_run x)"

text \<open>Sending a transaction, and waiting for it: \<open>await c.f(...)\<close>, then \<open>tx.wait()\<close>.\<close>

definition send_tx :: "event \<Rightarrow> tx_outcome \<Rightarrow> tx_outcome run" where
  "send_tx ev out = call ev (case out of SendFails e \<Rightarrow> Inl e | _ \<Rightarrow> Inr out)"

definition wait_tx :: "event \<Rightarrow> tx_outcome \<Rightarrow> receipt run" where
  "wait_tx ev out =
     call ev (case out of Mined r \<Rightarrow> Inr r | WaitFails e \<Rightarrow> Inl e | SendFails e \<Rightarrow> Inl e)"

section \<open>The hook \<open>useBridgeContract\<close>\<close>

text \<open>
  \<open>lockTokens\<close>: without a bridge contract or an account it throws at once. Otherwise it
  takes the signer, parses the amount, reads the bridge's address and the allowance the
  account gave it, approves the amount and waits for the approval when the allowance is
  smaller, and only then calls \<open>lockTokens\<close> on the bridge and waits. Both \<open>catch\<close> blocks
  log and rethrow, so the first exception ends the run.
\<close>

definition lockTokens ::
  "lib \<Rightarrow> wallet \<Rightarrow> bridge_contract option \<Rightarrow> (string \<Rightarrow> erc20_contract) \<Rightarrow>
   string \<Rightarrow> string \<Rightarrow> nat \<Rightarrow> string \<Rightarrow> receipt run" where
  "lockTokens l w bridgeContract tokenContract tokenAddress amount targetChain targetAddress =
     (case bridgeContract of
        None \<Rightarrow> throw_run BridgeContractNotAvailable
      | Some bridge \<Rightarrow>
          if account w = [] then throw_run BridgeContractNotAvailable
          else
            let destination = (if targetAddress \<noteq> [] then targetAddress else account w)
            in bind_run (call Provider_getSigner (getSigner w)) (\<lambda>signer.
               bind_run (of_option (parseEther l amount)) (\<lambda>amountWei.
               bind_run (call Bridge_getAddress (bc_getAddress bridge)) (\<lambda>bridgeAddress.
               bind_run (call (Token_allowance tokenAddress (account w) bridgeAddress)
                           (erc_allowance (tokenContract tokenAddress) (account w) bridgeAddress))
                 (\<lambda>allowance.
               bind_run
                 (if allowance < amountWei
                  then bind_run (send_tx (Token_approve tokenAddress bridgeAddress amountWei)
                                   (erc_approve (tokenContract tokenAddress) bridgeAddress amountWei))
                         (\<lambda>approveTx. wait_tx Approve_wait approveTx)
                  else return_run [])
                 (\<lambda>approved.
               bind_run (send_tx (Bridge_lockTokens tokenAddress amountWei targetChain destination)
                           (bc_lockTokens bridge tokenAddress amountWei targetChain destination))
                 (\<lambda>tx. wait_tx Lock_wait tx)))))))"

text \<open>
  \<open>burnAndBridge\<close>: the same guard, then the amount is parsed and \<open>burnAndBridge\<close> is
  called on the bridge at once. It reads no allowance and sends no approval.
\<close>

definition burnAndBridge ::
  "lib \<Rightarrow> wallet \<Rightarrow> bridge_contract option \<Rightarrow>
   string \<Rightarrow> string \<Rightarrow> nat \<Rightarrow> string \<Rightarrow> receipt run" where
  "burnAndBridge l w bridgeContract tokenAddress amount targetChain targetAddress =
     (case bridgeContract of
        None \<Rightarrow> throw_run BridgeContractNotAvailable
      | Some bridge \<Rightarrow>
          if account w = [] then throw_run BridgeContractNotAvailable
          else
            let destination = (if targetAddress \<noteq> [] then targetAddress else account w)
            in bind_run (of_option (parseEther l amount)) (\<lambda>amountWei.
               bind_run (send_tx (Bridge_burnAndBridge tokenAddress amountWei targetChain destination)
                           (bc_burnAndBridge bridge tokenAddress amountWei targetChain destination))
                 (\<lambda>tx. wait_tx Burn_wait tx)))"

text \<open>
  The \<open>BridgeTransaction\<close> the hook hands out, and the status codes of \<open>BridgeStatus\<close>.
  The status is the number the contract gave (the cast to the enum checks nothing).
\<close>

datatype BridgeStatus = Pending | Locked | Released | Completed | Failed

fun status_code :: "BridgeStatus \<Rightarrow> nat" where
  "status_code Pending = 0"
| "status_code Locked = 1"
| "status_code Released = 2"
| "status_code Completed = 3"
| "status_code Failed = 4"

record BridgeTransaction =
  bt_txId :: string
  bt_user :: string
  bt_token :: string
  bt_amount :: string
  bt_fee :: string
  bt_sourceChain :: nat
  bt_targetChain :: nat
  bt_targetAddress :: string
  bt_timestamp :: nat
  bt_status :: nat

text \<open>
  The object \<open>getTransaction\<close> returns when it has no contract and when the read fails:
  the handle it was asked for, empty fields and the status \<open>Pending\<close>.
\<close>

definition empty_transaction :: "string \<Rightarrow> BridgeTransaction" where
  "empty_transaction txId =
     \<lparr>bt_txId = txId, bt_user = [], bt_token = [], bt_amount = ''0'', bt_fee = ''0'',
      bt_sourceChain = 0, bt_targetChain = 0, bt_targetAddress = [], bt_timestamp = 0,
      bt_status = status_code Pending\<rparr>"

text \<open>
  \<open>getTransaction\<close>: the whole read and the conversion of its fields are inside one
  \<open>try\<close>, whose \<open>catch\<close> returns the object above. \<open>Number(x)\<close> of a chain id or a
  timestamp is taken as the number itself.
\<close>

definition getTransaction ::
  "lib \<Rightarrow> bridge_contract option \<Rightarrow> string \<Rightarrow> BridgeTransaction run" where
  "getTransaction l bridgeContract txId =
     (case bridgeContract of
        None \<Rightarrow> return_run (empty_transaction txId)
      | Some bridge \<Rightarrow>
          catch_run
            (bind_run (call (Bridge_getTransaction txId) (bc_getTransaction bridge txId)) (\<lambda>tx.
             bind_run (if raw_amount tx \<noteq> 0 then of_option (formatEther l (raw_amount tx))
                       else return_run ''0'') (\<lambda>amount.
             bind_run (if raw_fee tx \<noteq> 0 then of_option (formatEther l (raw_fee tx))
                       else return_run ''0'') (\<lambda>fee.
             return_run
               \<lparr>bt_txId = (if raw_txId tx \<noteq> [] then raw_txId tx else txId),
                bt_user = raw_user tx, bt_token = raw_token tx,
                bt_amount = amount, bt_fee = fee,
                bt_sourceChain = raw_sourceChain tx, bt_targetChain = raw_targetChain tx,
                bt_targetAddress = raw_targetAddress tx, bt_timestamp = raw_timestamp tx,
                bt_status = raw_status tx\<rparr>))))
            (\<lambda>error. return_run (empty_transaction txId)))"

text \<open>
  \<open>getUserTransactions\<close>: the empty array without a contract, without an address, and
  when the contract's enumeration throws; otherwise the handles the contract lists.
\<close>

definition getUserTransactions ::
  "wallet \<Rightarrow> bridge_contract option \<Rightarrow> string \<Rightarrow> string list run" where
  "getUserTransactions w bridgeContract userAddress =
     (case bridgeContract of
        None \<Rightarrow> return_run []
      | Some bridge \<Rightarrow>
          let address = (if userAddress \<noteq> [] then userAddress else account w)
          in if address = [] then return_run []
             else catch_run
                    (bind_run (call (Bridge_getUserTransactions address)
                                 (bc_getUserTransactions bridge address))
                       (\<lambda>txs. return_run (case txs of None \<Rightarrow> [] | Some hs \<Rightarrow> hs)))
                    (\<lambda>error. return_run []))"

text \<open>
  \<open>estimateBridgeFee\<close>. The rate is \<open>tokenInfo.fee || 250\<close>: the contract's rate unless
  it is \<open>0\<close> or missing. When the read, the parse or the formatting throws, the inner
  \<open>catch\<close> computes the fee at 250 of 10000; when that throws too, the outer \<open>catch\<close>
  returns \<open>'0'\<close>. The result is the formatted fee and nothing else.
\<close>

definition fee_rate :: "token_info \<Rightarrow> int" where
  "fee_rate tokenInfo =
     (case ti_fee tokenInfo of None \<Rightarrow> 250 | Some f \<Rightarrow> if f = 0 then 250 else f)"

definition estimateBridgeFee ::
  "lib \<Rightarrow> bridge_contract option \<Rightarrow> string \<Rightarrow> string \<Rightarrow> string run" where
  "estimateBridgeFee l bridgeContract tokenAddress amount =
     (case bridgeContract of
        None \<Rightarrow> throw_run BridgeContractNotAvailable
      | Some bridge \<Rightarrow>
          catch_run
            (catch_run
               (bind_run (call (Bridge_supportedTokens tokenAddress)
                            (bc_supportedTokens bridge tokenAddress)) (\<lambda>tokenInfo.
                bind_run (of_option (parseEther l amount)) (\<lambda>amountBN.
                of_option (formatEther l (bigint_div (amountBN * fee_rate tokenInfo) 10000)))))
               (\<lambda>error.
                bind_run (of_option (parseEther l amount)) (\<lambda>amountBN.
                of_option (formatEther l (bigint_div (amountBN * 250) 10000)))))
            (\<lambda>error. return_run ''0''))"

text \<open>
  The decimal digits of a \<open>bigint\<close>, as \<open>toString()\<close> writes them.
\<close>

function show_nat :: "nat \<Rightarrow> string" where
  "show_nat n =
     (if n < 10 then [''0123456789'' ! n]
      else show_nat (n div 10) @ [''0123456789'' ! (n mod 10)])"
  by pat_completeness auto
termination
  by (relation "measure (\<lambda>n. n)") auto

declare show_nat.simps [simp del]

definition toString :: "int \<Rightarrow> string" where
  "toString n = (if n < 0 then CHR ''-'' # show_nat (nat (- n)) else show_nat (nat n))"

text \<open>
  What \<open>checkFeeRequirements\<close> of either hook returns: the two booleans as the contract
  gave them, and the balance and the allowance as decimal strings.
\<close>

record fee_status =
  hasBalance :: bool
  hasAllowance :: bool
  balance :: string
  allowance :: string

definition fee_status_of :: "requirements \<Rightarrow> fee_status" where
  "fee_status_of requirements =
     \<lparr>hasBalance = rq_hasBalance requirements, hasAllowance = rq_hasAllowance requirements,
      balance = toString (rq_balance requirements),
      allowance = toString (rq_allowance requirements)\<rparr>"

definition no_fee_status :: fee_status where
  "no_fee_status = \<lparr>hasBalance = False, hasAllowance = False, balance = ''0'', allowance = ''0''\<rparr>"

text \<open>
  \<open>checkFeeRequirements\<close> of \<open>useBridgeContract\<close>: the two guards throw, outside the
  \<open>try\<close>; a failing contract call is caught and answered with the all-false status.
\<close>

definition checkFeeRequirements ::
  "wallet \<Rightarrow> bridge_contract option \<Rightarrow> string \<Rightarrow> fee_status run" where
  "checkFeeRequirements w bridgeContract userAddress =
     (case bridgeContract of
        None \<Rightarrow> throw_run BridgeContractNotAvailable
      | Some bridge \<Rightarrow>
          let address = (if userAddress \<noteq> [] then userAddress else account w)
          in if address = [] then throw_run NoAddressProvided
             else catch_run
                    (bind_run (call (Bridge_checkFeeRequirements address)
                                 (bc_checkFeeRequirements bridge address))
                       (\<lambda>requirements. return_run (fee_status_of requirements)))
                    (\<lambda>error. return_run no_fee_status))"

section \<open>The hook \<open>useDexContract\<close>\<close>

text \<open>
  Its \<open>checkFeeRequirements\<close> has the guards inside the \<open>try\<close>, so a missing router and
  a missing address end in the all-false status as well.
\<close>

definition dex_checkFeeRequirements ::
  "wallet \<Rightarrow> router_contract option \<Rightarrow> string \<Rightarrow> fee_status run" where
  "dex_checkFeeRequirements w router userAddress =
     catch_run
       (case router of
          None \<Rightarrow> throw_run RouterNotAvailable
        | Some r \<Rightarrow>
            let address = (if userAddress \<noteq> [] then userAddress else account w)
            in if address = [] then throw_run NoAddressProvided
               else bind_run (call (Router_checkFeeRequirements address)
                                (rc_checkFeeRequirements r address))
                      (\<lambda>requirements. return_run (fee_status_of requirements)))
       (\<lambda>error. return_run no_fee_status)"

section \<open>The \<open>Bridge\<close> component\<close>

text \<open>The component's state (its \<open>useState\<close> cells; a chain is kept by its id).\<close>

record bridge_ui =
  fromChain :: nat
  toChain :: nat
  amount :: string
  destinationAddress :: string
  selectedToken :: string
  bridgeFee :: string
  isBridging :: bool
  userTransactions :: "string list"
  feeWarning :: string

text \<open>What a handler leaves behind: the state, the alerts shown and the operations issued.\<close>

record outcome =
  ui :: bridge_ui
  alerts :: "string list"
  issued :: "event list"

text \<open>
  \<open>availableTokens\<close>: the tokens of the wallet's chain. \<open>getTokensByChain\<close> is in
  \<open>constants/tokens\<close>, outside the sources at hand, and is a parameter.
\<close>

definition availableTokens :: "(nat \<Rightarrow> token list) \<Rightarrow> wallet \<Rightarrow> token list" where
  "availableTokens getTokensByChain w =
     (if chainId w \<noteq> 0 then getTokensByChain (chainId w) else [])"

text \<open>
  \<open>checkUSDTFeeRequirements\<close> sets the warning that blocks the button: the unmet
  requirement when a boolean is false, another text when the check threw, none when both
  booleans are true.
\<close>

definition checkUSDTFeeRequirements ::
  "wallet \<Rightarrow> bridge_contract option \<Rightarrow> bridge_ui \<Rightarrow> outcome" where
  "checkUSDTFeeRequirements w bridgeContract s =
     (if account w = [] then \<lparr>ui = s, alerts = [], issued = []\<rparr>
      else case checkFeeRequirements w bridgeContract (account w) of
             (t, Inr feeStatus) \<Rightarrow>
               if \<not> hasBalance feeStatus \<or> \<not> hasAllowance feeStatus
               then \<lparr>ui = s\<lparr>feeWarning :=
                            ''You need $3 USDT balance and approval for bridge fees''\<rparr>,
                     alerts = [], issued = t\<rparr>
               else \<lparr>ui = s\<lparr>feeWarning := []\<rparr>, alerts = [], issued = t\<rparr>
           | (t, Inl error) \<Rightarrow>
               \<lparr>ui = s\<lparr>feeWarning := ''Unable to verify USDT fee requirements''\<rparr>,
                alerts = [], issued = t\<rparr>)"

text \<open>\<open>estimateFee\<close> stores the hook's estimate, and \<open>'0'\<close> when the hook threw.\<close>

definition estimateFee :: "lib \<Rightarrow> bridge_contract option \<Rightarrow> bridge_ui \<Rightarrow> outcome" where
  "estimateFee l bridgeContract s =
     (if selectedToken s = [] \<or> amount s = [] then \<lparr>ui = s, alerts = [], issued = []\<rparr>
      else case estimateBridgeFee l bridgeContract (selectedToken s) (amount s) of
             (t, Inr fee) \<Rightarrow> \<lparr>ui = s\<lparr>bridgeFee := fee\<rparr>, alerts = [], issued = t\<rparr>
           | (t, Inl error) \<Rightarrow> \<lparr>ui = s\<lparr>bridgeFee := ''0''\<rparr>, alerts = [], issued = t\<rparr>)"

text \<open>
  \<open>loadUserTransactions\<close> replaces the list of handles by what \<open>getUserTransactions\<close>
  returns. It reads no single transaction.
\<close>

definition loadUserTransactions ::
  "wallet \<Rightarrow> bridge_contract option \<Rightarrow> bridge_ui \<Rightarrow> outcome" where
  "loadUserTransactions w bridgeContract s =
     (if account w = [] then \<lparr>ui = s, alerts = [], issued = []\<rparr>
      else case getUserTransactions w bridgeContract (account w) of
             (t, Inr txs) \<Rightarrow> \<lparr>ui = s\<lparr>userTransactions := txs\<rparr>, alerts = [], issued = t\<rparr>
           | (t, Inl error) \<Rightarrow> \<lparr>ui = s, alerts = [], issued = t\<rparr>)"

text \<open>
  \<open>isNativeToken\<close>: the selected token is looked up among the tokens of the wallet's
  chain, and \<open>token?.chainId === chainId\<close> compares its chain with the wallet's. A token
  that is not found gives \<open>undefined\<close>, which is strictly equal to no chain id of the
  wallet (a number or \<open>null\<close>); without a chain id the token list is empty and no token
  is found.
\<close>

definition isNativeToken :: "token option \<Rightarrow> wallet \<Rightarrow> bool" where
  "isNativeToken tok w = (case tok of None \<Rightarrow> False | Some t \<Rightarrow> tk_chainId t = chainId w)"

text \<open>
  \<open>handleBridge\<close>. Three guards end it with an alert: no wallet, an amount that is
  empty or that \<open>parseFloat\<close> reads as \<open>\<le> 0\<close>, no token. Then the hook's \<open>lockTokens\<close>
  is called when the token is native to the wallet's chain, and its \<open>burnAndBridge\<close>
  otherwise, both with the target chain \<open>toChain.id\<close>. On success the form is cleared and
  the transactions are loaded again (the load is started without \<open>await\<close>; its effect is
  put after the submission here); on an exception an alert is shown. \<open>isBridging\<close> is
  set while the call runs and cleared in \<open>finally\<close>.
\<close>

definition handleBridge ::
  "lib \<Rightarrow> wallet \<Rightarrow> bridge_contract option \<Rightarrow> (string \<Rightarrow> erc20_contract) \<Rightarrow>
   (nat \<Rightarrow> token list) \<Rightarrow> bridge_ui \<Rightarrow> outcome" where
  "handleBridge l w bridgeContract tokenContract getTokensByChain s =
     (if \<not> isConnected w
      then \<lparr>ui = s, alerts = [''Please connect your wallet first''], issued = []\<rparr>
      else if amount s = [] \<or> le_zero (parseFloat l (amount s))
      then \<lparr>ui = s, alerts = [''Please enter a valid amount''], issued = []\<rparr>
      else if selectedToken s = []
      then \<lparr>ui = s, alerts = [''Please select a token''], issued = []\<rparr>
      else
        let destination = (if destinationAddress s \<noteq> [] then destinationAddress s else account w);
            tok = find (\<lambda>t. tk_address t = selectedToken s) (availableTokens getTokensByChain w);
            submitted =
              (if isNativeToken tok w
               then bind_run
                      (call (Hook_lockTokens (selectedToken s) (amount s) (toChain s) destination)
                         (Inr ()))
                      (\<lambda>u. lockTokens l w bridgeContract tokenContract
                              (selectedToken s) (amount s) (toChain s) destination)
               else bind_run
                      (call (Hook_burnAndBridge (selectedToken s) (amount s) (toChain s) destination)
                         (Inr ()))
                      (\<lambda>u. burnAndBridge l w bridgeContract
                              (selectedToken s) (amount s) (toChain s) destination))
        in case submitted of
             (t, Inr done) \<Rightarrow>
               let cleared = s\<lparr>amount := [], destinationAddress := []\<rparr>;
                   loaded = loadUserTransactions w bridgeContract cleared
               in \<lparr>ui = (ui loaded)\<lparr>isBridging := False\<rparr>,
                   alerts = [''Bridge transaction initiated! Please wait for confirmation on the destination chain.''],
                   issued = t @ issued loaded\<rparr>
           | (t, Inl error) \<Rightarrow>
               \<lparr>ui = s\<lparr>isBridging := False\<rparr>,
                alerts = [''Bridge transaction failed. Please try again.''],
                issued = t\<rparr>)"

text \<open>The \<open>disabled\<close> attribute of the button that calls \<open>handleBridge\<close>.\<close>

definition bridgeButtonDisabled :: "wallet \<Rightarrow> bridge_ui \<Rightarrow> bool" where
  "bridgeButtonDisabled w s =
     (amount s = [] \<or> selectedToken s = [] \<or> \<not> isConnected w \<or> isBridging s
      \<or> feeWarning s \<noteq> [])"

text \<open>
  The first two rows of the fee panel: the flat fee is a fixed text, the token fee is the
  stored estimate.
\<close>

definition bridgeInfo :: "bridge_ui \<Rightarrow> (string \<times> string) list" where
  "bridgeInfo s = [(''Bridge Fee'', ''$3 USDT''), (''Token Fee'', bridgeFee s @ '' tokens'')]"

section \<open>Concrete library functions and contracts\<close>

text \<open>
  \<open>parseEther\<close> and \<open>formatEther\<close> as ethers (version 6) computes them, for the concrete
  runs below. \<open>parseEther\<close> accepts an optional sign, digits, an optional point and
  digits (at least one digit in all), refuses more than 18 decimals unless the excess is
  zeros, and refuses a value outside the signed 512-bit range. \<open>formatEther\<close> writes the
  whole part, a point, and the 18 decimals without their trailing zeros but with at least
  one digit.
\<close>

definition is_digit :: "char \<Rightarrow> bool" where
  "is_digit c = (c \<in> set ''0123456789'')"

definition digit_value :: "char \<Rightarrow> nat" where
  "digit_value c = (of_char c :: nat) - 48"

definition read_nat :: "string \<Rightarrow> nat" where
  "read_nat ds = foldl (\<lambda>n c. 10 * n + digit_value c) 0 ds"

definition in_range_512 :: "int \<Rightarrow> bool" where
  "in_range_512 v = (- (2 ^ 511) \<le> v \<and> v < 2 ^ 511)"

definition parseEther_v6 :: "string \<Rightarrow> int option" where
  "parseEther_v6 v =
     (let neg = (take 1 v = ''-'');
          body = (if neg then drop 1 v else v);
          whole = takeWhile is_digit body;
          rest = dropWhile is_digit body;
          decimal = (if take 1 rest = ''.'' then drop 1 rest else rest)
      in if list_ex (\<lambda>c. \<not> is_digit c) decimal then None
         else if whole = [] \<and> decimal = [] then None
         else if list_ex (\<lambda>c. c \<noteq> CHR ''0'') (drop 18 decimal) then None
         else
           let padded = take 18 (decimal @ ''000000000000000000'');
               val = (if neg then - int (read_nat (whole @ padded))
                      else int (read_nat (whole @ padded)))
           in if in_range_512 val then Some val else None)"

definition decimals_18 :: "nat \<Rightarrow> string" where
  "decimals_18 f =
     (if f = 0 then ''0''
      else rev (dropWhile (\<lambda>c. c = CHR ''0'')
                  (rev (drop (length (show_nat f)) ''000000000000000000'' @ show_nat f))))"

definition formatEther_v6 :: "int \<Rightarrow> string option" where
  "formatEther_v6 v =
     (if in_range_512 v
      then Some ((if v < 0 then ''-'' else []) @ show_nat (nat \<bar>v\<bar> div 10 ^ 18) @ ''.''
                 @ decimals_18 (nat \<bar>v\<bar> mod 10 ^ 18))
      else None)"

text \<open>The values of \<open>parseFloat\<close> on the amounts used below; it is \<open>NaN\<close> on a non-number.\<close>

definition parseFloat_sample :: "string \<Rightarrow> number" where
  "parseFloat_sample v =
     (if v = ''1000.0'' then Finite 1000
      else if v = ''500'' then Finite 500
      else if v = ''5'' then Finite 5
      else if v = ''0'' then Finite 0
      else if v = ''-1'' then Finite (- 1)
      else NaN)"

definition sample_lib :: lib where
  "sample_lib =
     \<lparr>parseEther = parseEther_v6, formatEther = formatEther_v6, parseFloat = parseFloat_sample\<rparr>"

text \<open>
  A connected wallet on chain 1; a token list with a token of chain 1 and a wrapped token
  of chain 56; a token contract that reports an allowance of 0 and mines approvals; a
  bridge contract that answers every call, with a rate of 250.
\<close>

definition sample_wallet :: wallet where
  "sample_wallet = \<lparr>isConnected = True, account = ''0xUser'', chainId = 1, getSigner = Inr ()\<rparr>"

definition sample_tokens :: "nat \<Rightarrow> token list" where
  "sample_tokens c =
     [\<lparr>tk_address = ''0xToken'', tk_symbol = ''TKN'', tk_chainId = 1\<rparr>,
      \<lparr>tk_address = ''0xWrapped'', tk_symbol = ''wTKN'', tk_chainId = 56\<rparr>]"

definition sample_erc20 :: "string \<Rightarrow> erc20_contract" where
  "sample_erc20 tokenAddress =
     \<lparr>erc_allowance = (\<lambda>owner spender. Inr 0),
      erc_approve = (\<lambda>spender value. Mined ''0xapproved'')\<rparr>"

definition sample_raw :: raw_transaction where
  "sample_raw =
     \<lparr>raw_txId = ''0xabc'', raw_user = ''0xUser'', raw_token = ''0xToken'',
      raw_amount = 1000 * 10 ^ 18, raw_fee = 25 * 10 ^ 18, raw_sourceChain = 1,
      raw_targetChain = 56, raw_targetAddress = ''0xUser'', raw_timestamp = 1700000000,
      raw_status = 1\<rparr>"

definition sample_bridge :: bridge_contract where
  "sample_bridge =
     \<lparr>bc_getAddress = Inr ''0xBridge'',
      bc_lockTokens = (\<lambda>tok value chain dest. Mined ''0xlocked''),
      bc_burnAndBridge = (\<lambda>tok value chain dest. Mined ''0xburned''),
      bc_getTransaction = (\<lambda>txId. Inr sample_raw),
      bc_getUserTransactions = (\<lambda>user. Inr (Some [''0xabc'', ''0xdef''])),
      bc_supportedTokens = (\<lambda>tok. Inr \<lparr>ti_fee = Some 250\<rparr>),
      bc_checkFeeRequirements = (\<lambda>user.
         Inr \<lparr>rq_hasBalance = True, rq_hasAllowance = True,
              rq_balance = 3000000, rq_allowance = 3000000\<rparr>)\<rparr>"

text \<open>The same bridge with one call that throws, or with another answer.\<close>

definition failing_bridge :: bridge_contract where
  "failing_bridge =
     sample_bridge
       \<lparr>bc_getTransaction := (\<lambda>txId. Inl (CallException ''call revert'')),
        bc_getUserTransactions := (\<lambda>user. Inl (CallException ''call revert'')),
        bc_supportedTokens := (\<lambda>tok. Inl (CallException ''call revert'')),
        bc_checkFeeRequirements := (\<lambda>user. Inl (CallException ''call revert''))\<rparr>"

definition zero_rate_bridge :: bridge_contract where
  "zero_rate_bridge = sample_bridge\<lparr>bc_supportedTokens := (\<lambda>tok. Inr \<lparr>ti_fee = Some 0\<rparr>)\<rparr>"

definition unfunded_bridge :: bridge_contract where
  "unfunded_bridge =
     sample_bridge\<lparr>bc_checkFeeRequirements := (\<lambda>user.
        Inr \<lparr>rq_hasBalance = True, rq_hasAllowance = False,
             rq_balance = 3000000, rq_allowance = 0\<rparr>)\<rparr>"

definition failing_router :: router_contract where
  "failing_router = \<lparr>rc_checkFeeRequirements = (\<lambda>user. Inl (CallException ''call revert''))\<rparr>"

definition sample_ui :: bridge_ui where
  "sample_ui =
     \<lparr>fromChain = 1, toChain = 56, amount = ''1000.0'', destinationAddress = [],
      selectedToken = ''0xToken'', bridgeFee = ''0'', isBridging = False,
      userTransactions = [''0xabc'', ''0xdef''], feeWarning = []\<rparr>"

text \<open>A request whose target chain is the chain the wallet is on.\<close>

definition same_chain_ui :: bridge_ui where
  "same_chain_ui = sample_ui\<lparr>toChain := 1, amount := ''5''\<rparr>"

section \<open>Kinds of operations\<close>



fun enumeration_event :: "event \<Rightarrow> bool" where
  "enumeration_event (Bridge_getUserTransactions user) = True"
| "enumeration_event ev = False"

section \<open>Facts about runs and about the concrete library\<close>

lemmas run_defs = return_run_def throw_run_def call_def bind_run_def catch_run_def
  of_option_def send_tx_def wait_tx_def

lemmas v6_defs = parseEther_v6_def formatEther_v6_def decimals_18_def is_digit_def
  digit_value_def read_nat_def in_range_512_def show_nat.simps

lemma bigint_div_nonneg: "0 \<le> a \<Longrightarrow> 0 < b \<Longrightarrow> bigint_div a b = a div b"
  by (cases "a = 0") (simp_all add: bigint_div_def sgn_if)

lemma parse_1000: "parseEther sample_lib ''1000.0'' = Some (1000 * 10 ^ 18)"
  by (simp add: sample_lib_def v6_defs)

lemma parse_500: "parseEther sample_lib ''500'' = Some (500 * 10 ^ 18)"
  by (simp add: sample_lib_def v6_defs)

lemma parse_5: "parseEther sample_lib ''5'' = Some (5 * 10 ^ 18)"
  by (simp add: sample_lib_def v6_defs)

lemma format_25: "formatEther sample_lib (25 * 10 ^ 18) = Some ''25.0''"
  by (simp add: sample_lib_def v6_defs)

lemma format_0: "formatEther sample_lib 0 = Some ''0.0''"
  by (simp add: sample_lib_def v6_defs)



lemma getUserTransactions_trace:
  "\<forall>ev \<in> set (fst (getUserTransactions w b u)). enumeration_event ev"
  by (auto simp: getUserTransactions_def run_defs Let_def
           split: option.splits sum.splits if_splits prod.splits)

lemma getUserTransactions_total: "\<exists>hs. snd (getUserTransactions w b u) = Inr hs"
  by (auto simp: getUserTransactions_def run_defs Let_def
           split: option.splits sum.splits if_splits prod.splits)

lemma loadUserTransactions_trace:
  "\<forall>ev \<in> set (issued (loadUserTransactions w b s)). enumeration_event ev"
  using getUserTransactions_trace [of w b "account w"]
  by (auto simp: loadUserTransactions_def split: prod.splits sum.splits)


lemma loadUserTransactions_issued:
  "issued (loadUserTransactions w b s) =
     (if account w = [] then [] else fst (getUserTransactions w b (account w)))"
  by (simp add: loadUserTransactions_def split: prod.splits sum.splits)

lemma issued_case_run:
  "issued (case m of (t, Inr x) \<Rightarrow> f t x | (t, Inl e) \<Rightarrow> h t e) =
     (case m of (t, Inr x) \<Rightarrow> issued (f t x) | (t, Inl e) \<Rightarrow> issued (h t e))"
  by (simp split: prod.splits sum.splits)

section \<open>The claims\<close>



text \<open>
  C8, amended. A request whose amount is empty or read by \<open>parseFloat\<close> as \<open>\<le> 0\<close>
  ends \<open>handleBridge\<close> with one alert, with no operation issued and the state as it
  was. (\<open>handleBridge\<close> compares no chains and inspects no destination address.)
\<close>

theorem handleBridge_rejects_nonpositive_amount:
  assumes "amount s = [] \<or> le_zero (parseFloat l (amount s))"
  shows "issued (handleBridge l w b tc g s) = []
       \<and> ui (handleBridge l w b tc g s) = s
       \<and> alerts (handleBridge l w b tc g s) =
           [if isConnected w then ''Please enter a valid amount''
            else ''Please connect your wallet first'']"
  using assms by (auto simp: handleBridge_def)

text \<open>
  C2, amended. On the lock path, with the signer, the parsed amount \<open>A\<close>, the bridge's
  address \<open>S\<close> and the allowance \<open>al\<close> at hand: the allowance is read before anything
  is sent; when it covers \<open>A\<close> the bridge's \<open>lockTokens\<close> follows directly, with no
  approval; when it does not, \<open>approve(S, A)\<close> is sent and awaited first, and an approval
  that is not mined ends the run with an exception and without any \<open>lockTokens\<close> call.
  On the burn path the first operation is the bridge's \<open>burnAndBridge\<close> and nothing but
  the wait for it follows: no allowance is read and no approval is sent.
\<close>

theorem submit_authorization_order:
  assumes "account w \<noteq> []" and "getSigner w = Inr ()" and "parseEther l amt = Some A"
    and "bc_getAddress bridge = Inr S"
    and "erc_allowance (tc tok) (account w) S = Inr al"
    and "dest = (if target \<noteq> [] then target else account w)"
  shows "(A \<le> al \<longrightarrow>
            (\<exists>rest. fst (lockTokens l w (Some bridge) tc tok amt ch target) =
               [Provider_getSigner, Bridge_getAddress, Token_allowance tok (account w) S,
                Bridge_lockTokens tok A ch dest] @ rest))
       \<and> (al < A \<longrightarrow> (\<forall>r. erc_approve (tc tok) S A = Mined r \<longrightarrow>
            (\<exists>rest. fst (lockTokens l w (Some bridge) tc tok amt ch target) =
               [Provider_getSigner, Bridge_getAddress, Token_allowance tok (account w) S,
                Token_approve tok S A, Approve_wait,
                Bridge_lockTokens tok A ch dest] @ rest)))
       \<and> (al < A \<longrightarrow> (\<forall>r. erc_approve (tc tok) S A \<noteq> Mined r) \<longrightarrow>
            (\<forall>a v c d. Bridge_lockTokens a v c d \<notin> set (fst (lockTokens l w (Some bridge) tc tok amt ch target)))
            \<and> (\<exists>e. snd (lockTokens l w (Some bridge) tc tok amt ch target) = Inl e))
       \<and> (\<exists>rest. fst (burnAndBridge l w (Some bridge) tok amt ch target) =
               Bridge_burnAndBridge tok A ch dest # rest
             \<and> (\<forall>ev \<in> set rest. ev = Burn_wait))"
proof (intro conjI impI allI)
  assume "A \<le> al"
  then show "\<exists>rest. fst (lockTokens l w (Some bridge) tc tok amt ch target) =
               [Provider_getSigner, Bridge_getAddress, Token_allowance tok (account w) S,
                Bridge_lockTokens tok A ch dest] @ rest"
    using assms
    by (cases "bc_lockTokens bridge tok A ch dest")
       (simp_all add: lockTokens_def run_defs Let_def)
next
  fix r
  assume "al < A" and "erc_approve (tc tok) S A = Mined r"
  then show "\<exists>rest. fst (lockTokens l w (Some bridge) tc tok amt ch target) =
               [Provider_getSigner, Bridge_getAddress, Token_allowance tok (account w) S,
                Token_approve tok S A, Approve_wait,
                Bridge_lockTokens tok A ch dest] @ rest"
    using assms
    by (cases "bc_lockTokens bridge tok A ch dest")
       (simp_all add: lockTokens_def run_defs Let_def)
next
  fix a v c d
  assume "al < A" and "\<forall>r. erc_approve (tc tok) S A \<noteq> Mined r"
  then show "Bridge_lockTokens a v c d \<notin> set (fst (lockTokens l w (Some bridge) tc tok amt ch target))"
    using assms
    by (cases "erc_approve (tc tok) S A")
       (simp_all add: lockTokens_def run_defs Let_def)
next
  assume "al < A" and "\<forall>r. erc_approve (tc tok) S A \<noteq> Mined r"
  then show "\<exists>e. snd (lockTokens l w (Some bridge) tc tok amt ch target) = Inl e"
    using assms
    by (cases "erc_approve (tc tok) S A")
       (simp_all add: lockTokens_def run_defs Let_def)
next
  show "\<exists>rest. fst (burnAndBridge l w (Some bridge) tok amt ch target) =
               Bridge_burnAndBridge tok A ch dest # rest
             \<and> (\<forall>ev \<in> set rest. ev = Burn_wait)"
    using assms
    by (cases "bc_burnAndBridge bridge tok A ch dest")
       (simp_all add: burnAndBridge_def run_defs Let_def)
qed

text \<open>
  C3, amended. When \<open>supportedTokens\<close> throws, the estimate is the formatted value of
  \<open>amount * 250 / 10000\<close> in \<open>bigint\<close> arithmetic (the floor, for an amount that is
  not negative), and the run is the very run obtained from a contract that reports the
  rate 250: the result carries no mark of the fallback.
\<close>

theorem estimateBridgeFee_fallback:
  assumes "bc_supportedTokens bridge tok = Inl e" and "parseEther l amt = Some A"
    and "formatEther l (bigint_div (A * 250) 10000) = Some f"
  shows "estimateBridgeFee l (Some bridge) tok amt = ([Bridge_supportedTokens tok], Inr f)
       \<and> (0 \<le> A \<longrightarrow> bigint_div (A * 250) 10000 = A * 250 div 10000)
       \<and> (\<forall>bridge'. bc_supportedTokens bridge' tok = Inr \<lparr>ti_fee = Some 250\<rparr> \<longrightarrow>
            estimateBridgeFee l (Some bridge') tok amt = estimateBridgeFee l (Some bridge) tok amt)"
  using assms
  by (auto simp: estimateBridgeFee_def run_defs fee_rate_def bigint_div_nonneg)

text \<open>
  C6, amended. For a reported rate \<open>r\<close> other than 0, the estimate is the formatted
  value of \<open>amount * r / 10000\<close> in \<open>bigint\<close> arithmetic (the floor, when neither is
  negative); the fee panel shows the flat fee as the fixed text \<open>$3 USDT\<close> in a row of its
  own and the token fee in the next row.
\<close>

theorem estimateBridgeFee_proportional:
  assumes "bc_supportedTokens bridge tok = Inr info" and "ti_fee info = Some r" and "r \<noteq> 0"
    and "parseEther l amt = Some A"
    and "formatEther l (bigint_div (A * r) 10000) = Some f"
    and "selectedToken s = tok" and "amount s = amt" and "tok \<noteq> []" and "amt \<noteq> []"
  shows "snd (estimateBridgeFee l (Some bridge) tok amt) = Inr f
       \<and> (0 \<le> A \<and> 0 \<le> r \<longrightarrow> bigint_div (A * r) 10000 = A * r div 10000)
       \<and> bridgeInfo (ui (estimateFee l (Some bridge) s)) =
           [(''Bridge Fee'', ''$3 USDT''), (''Token Fee'', f @ '' tokens'')]"
  using assms
  by (auto simp: estimateBridgeFee_def estimateFee_def bridgeInfo_def run_defs fee_rate_def
      bigint_div_nonneg)

text \<open>
  C9. When \<open>supportedTokens\<close> answers with a rate of 0, or without a rate, the estimate
  is computed at 250 of 10000, and the whole run equals the run against a contract whose
  \<open>supportedTokens\<close> throws.
\<close>

theorem zero_rate_defaults_to_250:
  assumes "bc_supportedTokens bridge tok = Inr info" and "ti_fee info = None \<or> ti_fee info = Some 0"
    and "parseEther l amt = Some A"
  shows "(\<forall>f. formatEther l (bigint_div (A * 250) 10000) = Some f \<longrightarrow>
            snd (estimateBridgeFee l (Some bridge) tok amt) = Inr f)
       \<and> (\<forall>bridge' e. bc_supportedTokens bridge' tok = Inl e \<longrightarrow>
            estimateBridgeFee l (Some bridge') tok amt = estimateBridgeFee l (Some bridge) tok amt)"
  using assms
  by (auto simp: estimateBridgeFee_def run_defs fee_rate_def split: option.splits)


lemma toString_0: "toString 0 = ''0''"
  by (simp add: toString_def show_nat.simps)

text \<open>
  C10. With an address at hand, a contract call that throws makes \<open>checkFeeRequirements\<close>
  of either hook return, without an exception, the status with both booleans false and
  balance and allowance \<open>'0'\<close>; a bridge that truly reports false, false, 0 and 0 gives
  the same run.
\<close>

theorem checkFeeRequirements_failure_all_false:
  assumes "address = (if userAddress \<noteq> [] then userAddress else account w)" and "address \<noteq> []"
  shows "(\<forall>e. bc_checkFeeRequirements bridge address = Inl e \<longrightarrow>
            checkFeeRequirements w (Some bridge) userAddress =
              ([Bridge_checkFeeRequirements address], Inr no_fee_status))
       \<and> (\<forall>e. rc_checkFeeRequirements router address = Inl e \<longrightarrow>
            dex_checkFeeRequirements w (Some router) userAddress =
              ([Router_checkFeeRequirements address], Inr no_fee_status))
       \<and> (bc_checkFeeRequirements bridge' address =
              Inr \<lparr>rq_hasBalance = False, rq_hasAllowance = False, rq_balance = 0, rq_allowance = 0\<rparr> \<longrightarrow>
            checkFeeRequirements w (Some bridge') userAddress =
              ([Bridge_checkFeeRequirements address], Inr no_fee_status))
       \<and> no_fee_status =
            \<lparr>hasBalance = False, hasAllowance = False, balance = ''0'', allowance = ''0''\<rparr>"
  using assms
  by (auto simp: checkFeeRequirements_def dex_checkFeeRequirements_def run_defs Let_def
      fee_status_of_def no_fee_status_def toString_0)

text \<open>
  C7, amended. \<open>checkFeeRequirements\<close> hands the contract's two booleans on, each as it
  is. In the state \<open>checkUSDTFeeRequirements\<close> leaves, the button that starts a transfer
  is enabled only if the check returned and both booleans are true; when one is false the
  warning of the unmet requirement is set, the button is disabled and no alert is raised;
  when both are true the warning is cleared. The gate is that button and nothing else:
  \<open>handleBridge\<close> issues the same operations whatever the warning says.
\<close>

theorem fee_requirements_gate:
  assumes "account w \<noteq> []"
  shows "(\<forall>rq. bc_checkFeeRequirements bridge (account w) = Inr rq \<longrightarrow>
            (\<exists>fs. snd (checkFeeRequirements w (Some bridge) (account w)) = Inr fs
                  \<and> hasBalance fs = rq_hasBalance rq \<and> hasAllowance fs = rq_hasAllowance rq))
       \<and> (\<not> bridgeButtonDisabled w (ui (checkUSDTFeeRequirements w b s)) \<longrightarrow>
            (\<exists>fs. snd (checkFeeRequirements w b (account w)) = Inr fs
                  \<and> hasBalance fs \<and> hasAllowance fs))
       \<and> (\<forall>fs. snd (checkFeeRequirements w b (account w)) = Inr fs
                \<and> (\<not> hasBalance fs \<or> \<not> hasAllowance fs) \<longrightarrow>
            feeWarning (ui (checkUSDTFeeRequirements w b s)) =
              ''You need $3 USDT balance and approval for bridge fees''
            \<and> bridgeButtonDisabled w (ui (checkUSDTFeeRequirements w b s))
            \<and> alerts (checkUSDTFeeRequirements w b s) = [])
       \<and> (\<forall>fs. snd (checkFeeRequirements w b (account w)) = Inr fs
                \<and> hasBalance fs \<and> hasAllowance fs \<longrightarrow>
            feeWarning (ui (checkUSDTFeeRequirements w b s)) = [])
       \<and> (\<forall>fw. issued (handleBridge l w b tc g (s\<lparr>feeWarning := fw\<rparr>)) =
                 issued (handleBridge l w b tc g s))"
proof -
  have independent: "\<forall>rq. bc_checkFeeRequirements bridge (account w) = Inr rq \<longrightarrow>
            (\<exists>fs. snd (checkFeeRequirements w (Some bridge) (account w)) = Inr fs
                  \<and> hasBalance fs = rq_hasBalance rq \<and> hasAllowance fs = rq_hasAllowance rq)"
    using assms by (simp add: checkFeeRequirements_def run_defs fee_status_of_def)
  obtain t r where run: "checkFeeRequirements w b (account w) = (t, r)"
    by (cases "checkFeeRequirements w b (account w)")
  have enabled: "\<not> bridgeButtonDisabled w (ui (checkUSDTFeeRequirements w b s)) \<longrightarrow>
            (\<exists>fs. snd (checkFeeRequirements w b (account w)) = Inr fs
                  \<and> hasBalance fs \<and> hasAllowance fs)"
    using assms run
    by (cases r) (auto simp: checkUSDTFeeRequirements_def bridgeButtonDisabled_def split: if_splits)
  have blocked: "\<forall>fs. snd (checkFeeRequirements w b (account w)) = Inr fs
                \<and> (\<not> hasBalance fs \<or> \<not> hasAllowance fs) \<longrightarrow>
            feeWarning (ui (checkUSDTFeeRequirements w b s)) =
              ''You need $3 USDT balance and approval for bridge fees''
            \<and> bridgeButtonDisabled w (ui (checkUSDTFeeRequirements w b s))
            \<and> alerts (checkUSDTFeeRequirements w b s) = []"
    using assms run
    by (cases r) (auto simp: checkUSDTFeeRequirements_def bridgeButtonDisabled_def)
  have cleared: "\<forall>fs. snd (checkFeeRequirements w b (account w)) = Inr fs
                \<and> hasBalance fs \<and> hasAllowance fs \<longrightarrow>
            feeWarning (ui (checkUSDTFeeRequirements w b s)) = []"
    using assms run
    by (cases r) (auto simp: checkUSDTFeeRequirements_def)
  have ungated: "\<forall>fw. issued (handleBridge l w b tc g (s\<lparr>feeWarning := fw\<rparr>)) =
                 issued (handleBridge l w b tc g s)"
    by (simp add: handleBridge_def Let_def issued_case_run loadUserTransactions_issued)
  from independent enabled blocked cleared ungated show ?thesis by blast
qed

lemma getTransaction_total: "\<exists>tx. snd (getTransaction l b h) = Inr tx"
  by (auto simp: getTransaction_def run_defs split: option.splits sum.splits prod.splits)

text \<open>
  C4, amended. When the contract's \<open>getTransaction\<close> throws, the hook's \<open>getTransaction\<close>
  returns, with no exception, the placeholder for the handle: empty fields and the status
  \<open>Pending\<close>. (The hook keeps no cache: the result is a function of the contract's answer
  and the handle.)
\<close>

theorem getTransaction_failure_placeholder:
  assumes "bc_getTransaction bridge txId = Inl e"
  shows "getTransaction l (Some bridge) txId =
           ([Bridge_getTransaction txId], Inr (empty_transaction txId))
       \<and> bt_txId (empty_transaction txId) = txId
       \<and> bt_status (empty_transaction txId) = status_code Pending
       \<and> (\<forall>e'. snd (getTransaction l (Some bridge) txId) \<noteq> Inl e')"
  using assms by (simp add: getTransaction_def run_defs empty_transaction_def)

text \<open>
  C5, amended. \<open>loadUserTransactions\<close> replaces the list of handles by the contract's
  list when the enumeration answers and by the empty list when it throws, raises no alert
  in either case, and never reads a single transaction.
\<close>

theorem getUserTransactions_all_or_nothing:
  assumes "account w \<noteq> []"
  shows "(\<forall>hs. bc_getUserTransactions bridge (account w) = Inr (Some hs) \<longrightarrow>
            loadUserTransactions w (Some bridge) s =
              \<lparr>ui = s\<lparr>userTransactions := hs\<rparr>, alerts = [],
               issued = [Bridge_getUserTransactions (account w)]\<rparr>)
       \<and> (\<forall>e. bc_getUserTransactions bridge (account w) = Inl e \<longrightarrow>
            loadUserTransactions w (Some bridge) s =
              \<lparr>ui = s\<lparr>userTransactions := []\<rparr>, alerts = [],
               issued = [Bridge_getUserTransactions (account w)]\<rparr>)
       \<and> (\<forall>h. Bridge_getTransaction h \<notin> set (issued (loadUserTransactions w b s)))"
proof (intro conjI allI impI)
  fix h
  show "Bridge_getTransaction h \<notin> set (issued (loadUserTransactions w b s))"
    using loadUserTransactions_trace [of w b s] by auto
qed (use assms in \<open>simp_all add: loadUserTransactions_def getUserTransactions_def run_defs\<close>)


lemma sample_parseFloat: "parseFloat sample_lib = parseFloat_sample"
  by (simp add: sample_lib_def)

lemmas sample_defs = sample_wallet_def sample_ui_def same_chain_ui_def sample_tokens_def
  sample_erc20_def sample_bridge_def failing_bridge_def zero_rate_bridge_def
  unfunded_bridge_def failing_router_def sample_parseFloat parseFloat_sample_def
  availableTokens_def


text \<open>
  C8 as stated fails: with the target chain equal to the chain the wallet is on,
  \<open>handleBridge\<close> still calls \<open>lockTokens\<close> on the bridge.
\<close>

theorem same_chain_transfer_counterexample:
  "toChain same_chain_ui = chainId sample_wallet
   \<and> Bridge_lockTokens ''0xToken'' (5 * 10 ^ 18) 1 ''0xUser'' \<in> set (issued
       (handleBridge sample_lib sample_wallet (Some sample_bridge) sample_erc20 sample_tokens
          same_chain_ui))"
  by (simp add: handleBridge_def lockTokens_def loadUserTransactions_def getUserTransactions_def
      isNativeToken_def run_defs Let_def sample_defs parse_5)

text \<open>C8, amended, at the amount \<open>0\<close>.\<close>

theorem handleBridge_rejects_nonpositive_amount_witness:
  "(amount (sample_ui\<lparr>amount := ''0''\<rparr>) = []
      \<or> le_zero (parseFloat sample_lib (amount (sample_ui\<lparr>amount := ''0''\<rparr>))))
   \<and> issued (handleBridge sample_lib sample_wallet (Some sample_bridge) sample_erc20 sample_tokens
        (sample_ui\<lparr>amount := ''0''\<rparr>)) = []
   \<and> alerts (handleBridge sample_lib sample_wallet (Some sample_bridge) sample_erc20 sample_tokens
        (sample_ui\<lparr>amount := ''0''\<rparr>)) = [''Please enter a valid amount'']"
proof -
  have h: "amount (sample_ui\<lparr>amount := ''0''\<rparr>) = []
      \<or> le_zero (parseFloat sample_lib (amount (sample_ui\<lparr>amount := ''0''\<rparr>)))"
    by (simp add: sample_defs)
  have c: "isConnected sample_wallet" by (simp add: sample_defs)
  from handleBridge_rejects_nonpositive_amount
         [OF h, of sample_wallet "Some sample_bridge" sample_erc20 sample_tokens]
  show ?thesis using h c by simp
qed

text \<open>
  C2 as stated fails on the burn path: with an allowance of 0 and an amount of 500,
  \<open>burnAndBridge\<close> issues the burn call and its wait, and nothing else.
\<close>

theorem burn_path_counterexample:
  "erc_allowance (sample_erc20 ''0xWrapped'') ''0xUser'' ''0xBridge'' = Inr 0
   \<and> parseEther sample_lib ''500'' = Some (500 * 10 ^ 18)
   \<and> burnAndBridge sample_lib sample_wallet (Some sample_bridge) ''0xWrapped'' ''500'' 56 []
      = ([Bridge_burnAndBridge ''0xWrapped'' (500 * 10 ^ 18) 56 ''0xUser'', Burn_wait],
         Inr ''0xburned'')"
  by (simp add: burnAndBridge_def run_defs Let_def sample_defs parse_500)

text \<open>
  C2, amended, at allowance 0 and amount 500: the approval and its confirmation precede
  the lock call.
\<close>

theorem submit_authorization_order_witness:
  "account sample_wallet \<noteq> [] \<and> getSigner sample_wallet = Inr ()
   \<and> parseEther sample_lib ''500'' = Some (500 * 10 ^ 18)
   \<and> bc_getAddress sample_bridge = Inr ''0xBridge''
   \<and> erc_allowance (sample_erc20 ''0xToken'') (account sample_wallet) ''0xBridge'' = Inr 0
   \<and> (0::int) < 500 * 10 ^ 18
   \<and> erc_approve (sample_erc20 ''0xToken'') ''0xBridge'' (500 * 10 ^ 18) = Mined ''0xapproved''
   \<and> (\<exists>rest. fst (lockTokens sample_lib sample_wallet (Some sample_bridge) sample_erc20
                     ''0xToken'' ''500'' 56 []) =
          [Provider_getSigner, Bridge_getAddress, Token_allowance ''0xToken'' ''0xUser'' ''0xBridge'',
           Token_approve ''0xToken'' ''0xBridge'' (500 * 10 ^ 18), Approve_wait,
           Bridge_lockTokens ''0xToken'' (500 * 10 ^ 18) 56 ''0xUser''] @ rest)
   \<and> (\<exists>rest. fst (burnAndBridge sample_lib sample_wallet (Some sample_bridge)
                     ''0xToken'' ''500'' 56 []) =
          Bridge_burnAndBridge ''0xToken'' (500 * 10 ^ 18) 56 ''0xUser'' # rest
        \<and> (\<forall>ev \<in> set rest. ev = Burn_wait))"
proof -
  have h1: "account sample_wallet \<noteq> []" by (simp add: sample_defs)
  have h2: "getSigner sample_wallet = Inr ()" by (simp add: sample_defs)
  have h4: "bc_getAddress sample_bridge = Inr ''0xBridge''" by (simp add: sample_defs)
  have h5: "erc_allowance (sample_erc20 ''0xToken'') (account sample_wallet) ''0xBridge'' = Inr 0"
    by (simp add: sample_defs)
  have h6: "''0xUser'' = (if [] \<noteq> [] then [] else account sample_wallet)"
    by (simp add: sample_defs)
  have h7: "erc_approve (sample_erc20 ''0xToken'') ''0xBridge'' (500 * 10 ^ 18) = Mined ''0xapproved''"
    by (simp add: sample_defs)
  have a: "account sample_wallet = ''0xUser''" by (simp add: sample_defs)
  from submit_authorization_order
         [where l = sample_lib and w = sample_wallet and amt = "''500''" and A = "500 * 10 ^ 18"
            and bridge = sample_bridge and S = "''0xBridge''" and tc = sample_erc20
            and tok = "''0xToken''" and al = 0 and dest = "''0xUser''" and target = "[]"
            and ch = 56, OF h1 h2 parse_500 h4 h5 h6]
  show ?thesis using h1 h2 parse_500 h4 h5 h7 a by simp
qed


lemma fee_of_1000: "formatEther sample_lib (bigint_div (1000 * 10 ^ 18 * 250) 10000) = Some ''25.0''"
  by (simp add: sample_lib_def v6_defs bigint_div_def)

lemma format_25n: "formatEther sample_lib 25000000000000000000 = Some ''25.0''"
  using format_25 by simp

text \<open>
  C3 as stated fails: a contract whose \<open>supportedTokens\<close> throws and one that reports
  250 give the same run, so the caller cannot tell the fallback from a quoted fee.
\<close>

theorem fallback_not_flagged_counterexample:
  "bc_supportedTokens failing_bridge ''0xToken'' = Inl (CallException ''call revert'')
   \<and> bc_supportedTokens sample_bridge ''0xToken'' = Inr \<lparr>ti_fee = Some 250\<rparr>
   \<and> estimateBridgeFee sample_lib (Some failing_bridge) ''0xToken'' ''1000.0''
       = ([Bridge_supportedTokens ''0xToken''], Inr ''25.0'')
   \<and> estimateBridgeFee sample_lib (Some sample_bridge) ''0xToken'' ''1000.0''
       = ([Bridge_supportedTokens ''0xToken''], Inr ''25.0'')"
  by (simp add: estimateBridgeFee_def run_defs fee_rate_def sample_defs parse_1000 bigint_div_def
      format_25n)

text \<open>C3, amended, at 1000.0 tokens: the fallback fee is \<open>25.0\<close>.\<close>

theorem estimateBridgeFee_fallback_witness:
  "bc_supportedTokens failing_bridge ''0xToken'' = Inl (CallException ''call revert'')
   \<and> parseEther sample_lib ''1000.0'' = Some (1000 * 10 ^ 18)
   \<and> formatEther sample_lib (bigint_div (1000 * 10 ^ 18 * 250) 10000) = Some ''25.0''
   \<and> estimateBridgeFee sample_lib (Some failing_bridge) ''0xToken'' ''1000.0''
       = ([Bridge_supportedTokens ''0xToken''], Inr ''25.0'')"
proof -
  have h1: "bc_supportedTokens failing_bridge ''0xToken'' = Inl (CallException ''call revert'')"
    by (simp add: sample_defs)
  from estimateBridgeFee_fallback [OF h1 parse_1000 fee_of_1000]
  show ?thesis using h1 parse_1000 fee_of_1000 by blast
qed

text \<open>
  C6 as stated fails at the rate 0: for 1000.0 tokens \<open>amount * 0 / 10000\<close> formats as
  \<open>0.0\<close>, and the estimate is \<open>25.0\<close>.
\<close>

theorem zero_rate_counterexample:
  "bc_supportedTokens zero_rate_bridge ''0xToken'' = Inr \<lparr>ti_fee = Some 0\<rparr>
   \<and> parseEther sample_lib ''1000.0'' = Some (1000 * 10 ^ 18)
   \<and> formatEther sample_lib (bigint_div (1000 * 10 ^ 18 * 0) 10000) = Some ''0.0''
   \<and> snd (estimateBridgeFee sample_lib (Some zero_rate_bridge) ''0xToken'' ''1000.0'')
       = Inr ''25.0''"
  by (simp add: estimateBridgeFee_def run_defs fee_rate_def sample_defs parse_1000 bigint_div_def
      format_25n format_0)

text \<open>C6, amended, at 1000.0 tokens and 250 basis points: the token fee is \<open>25.0\<close>.\<close>

theorem estimateBridgeFee_proportional_witness:
  "bc_supportedTokens sample_bridge ''0xToken'' = Inr \<lparr>ti_fee = Some 250\<rparr>
   \<and> ti_fee \<lparr>ti_fee = Some 250\<rparr> = Some 250 \<and> (250::int) \<noteq> 0
   \<and> parseEther sample_lib ''1000.0'' = Some (1000 * 10 ^ 18)
   \<and> formatEther sample_lib (bigint_div (1000 * 10 ^ 18 * 250) 10000) = Some ''25.0''
   \<and> selectedToken sample_ui = ''0xToken'' \<and> amount sample_ui = ''1000.0''
   \<and> snd (estimateBridgeFee sample_lib (Some sample_bridge) ''0xToken'' ''1000.0'') = Inr ''25.0''
   \<and> bridgeInfo (ui (estimateFee sample_lib (Some sample_bridge) sample_ui)) =
        [(''Bridge Fee'', ''$3 USDT''), (''Token Fee'', ''25.0 tokens'')]"
proof -
  have h1: "bc_supportedTokens sample_bridge ''0xToken'' = Inr \<lparr>ti_fee = Some 250\<rparr>"
    by (simp add: sample_defs)
  have h2: "ti_fee \<lparr>ti_fee = Some 250\<rparr> = Some 250" by simp
  have h3: "(250::int) \<noteq> 0" by simp
  have h6: "selectedToken sample_ui = ''0xToken''" by (simp add: sample_defs)
  have h7: "amount sample_ui = ''1000.0''" by (simp add: sample_defs)
  have h8: "''0xToken'' \<noteq> []" by simp
  have h9: "''1000.0'' \<noteq> []" by simp
  from estimateBridgeFee_proportional [OF h1 h2 h3 parse_1000 fee_of_1000 h6 h7 h8 h9]
  show ?thesis using h1 h2 h3 parse_1000 fee_of_1000 h6 h7 by simp
qed

text \<open>C9 at 1000.0 tokens and a reported rate of 0.\<close>

theorem zero_rate_defaults_to_250_witness:
  "bc_supportedTokens zero_rate_bridge ''0xToken'' = Inr \<lparr>ti_fee = Some 0\<rparr>
   \<and> (ti_fee \<lparr>ti_fee = Some 0\<rparr> = None \<or> ti_fee \<lparr>ti_fee = Some 0\<rparr> = Some 0)
   \<and> parseEther sample_lib ''1000.0'' = Some (1000 * 10 ^ 18)
   \<and> snd (estimateBridgeFee sample_lib (Some zero_rate_bridge) ''0xToken'' ''1000.0'') = Inr ''25.0''
   \<and> estimateBridgeFee sample_lib (Some failing_bridge) ''0xToken'' ''1000.0''
       = estimateBridgeFee sample_lib (Some zero_rate_bridge) ''0xToken'' ''1000.0''"
proof -
  have h1: "bc_supportedTokens zero_rate_bridge ''0xToken'' = Inr \<lparr>ti_fee = Some 0\<rparr>"
    by (simp add: sample_defs)
  have h2: "ti_fee \<lparr>ti_fee = Some 0\<rparr> = None \<or> ti_fee \<lparr>ti_fee = Some 0\<rparr> = Some 0" by simp
  have h4: "bc_supportedTokens failing_bridge ''0xToken'' = Inl (CallException ''call revert'')"
    by (simp add: sample_defs)
  from zero_rate_defaults_to_250 [OF h1 h2 parse_1000]
  show ?thesis using h1 h2 h4 parse_1000 fee_of_1000 by blast
qed

text \<open>C10 at a bridge and a router whose call reverts.\<close>

theorem checkFeeRequirements_failure_all_false_witness:
  "''0xUser'' = (if ''0xUser'' \<noteq> [] then ''0xUser'' else account sample_wallet) \<and> ''0xUser'' \<noteq> []
   \<and> bc_checkFeeRequirements failing_bridge ''0xUser'' = Inl (CallException ''call revert'')
   \<and> rc_checkFeeRequirements failing_router ''0xUser'' = Inl (CallException ''call revert'')
   \<and> checkFeeRequirements sample_wallet (Some failing_bridge) ''0xUser'' =
        ([Bridge_checkFeeRequirements ''0xUser''], Inr no_fee_status)
   \<and> dex_checkFeeRequirements sample_wallet (Some failing_router) ''0xUser'' =
        ([Router_checkFeeRequirements ''0xUser''], Inr no_fee_status)"
proof -
  have h1: "''0xUser'' = (if ''0xUser'' \<noteq> [] then ''0xUser'' else account sample_wallet)" by simp
  have h2: "''0xUser'' \<noteq> []" by simp
  have h3: "bc_checkFeeRequirements failing_bridge ''0xUser'' = Inl (CallException ''call revert'')"
    by (simp add: sample_defs)
  have h4: "rc_checkFeeRequirements failing_router ''0xUser'' = Inl (CallException ''call revert'')"
    by (simp add: sample_defs)
  from checkFeeRequirements_failure_all_false
         [OF h1 h2, of failing_bridge failing_router sample_bridge]
  show ?thesis using h1 h2 h3 h4 by blast
qed

text \<open>
  C7 as stated fails: in the component's first state the warning is empty and the button
  enabled, and \<open>handleBridge\<close> reaches \<open>lockTokens\<close> on the bridge although the check
  would report an allowance that does not cover the fee.
\<close>

theorem fee_gate_open_counterexample:
  "feeWarning sample_ui = []
   \<and> \<not> bridgeButtonDisabled sample_wallet sample_ui
   \<and> snd (checkFeeRequirements sample_wallet (Some unfunded_bridge) (account sample_wallet))
       = Inr \<lparr>hasBalance = True, hasAllowance = False, balance = ''3000000'', allowance = ''0''\<rparr>
   \<and> Bridge_lockTokens ''0xToken'' (1000 * 10 ^ 18) 56 ''0xUser'' \<in> set (issued
       (handleBridge sample_lib sample_wallet (Some unfunded_bridge) sample_erc20 sample_tokens
          sample_ui))"
proof -
  have s3: "toString 3000000 = ''3000000''" by (simp add: toString_def show_nat.simps)
  have r: "snd (checkFeeRequirements sample_wallet (Some unfunded_bridge) (account sample_wallet))
       = Inr \<lparr>hasBalance = True, hasAllowance = False, balance = ''3000000'', allowance = ''0''\<rparr>"
    by (simp add: checkFeeRequirements_def run_defs fee_status_of_def s3 toString_0 sample_defs)
  have b: "\<not> bridgeButtonDisabled sample_wallet sample_ui"
    by (simp add: bridgeButtonDisabled_def sample_defs)
  have k: "Bridge_lockTokens ''0xToken'' (1000 * 10 ^ 18) 56 ''0xUser'' \<in> set (issued
       (handleBridge sample_lib sample_wallet (Some unfunded_bridge) sample_erc20 sample_tokens
          sample_ui))"
    by (simp add: handleBridge_def lockTokens_def loadUserTransactions_def
        getUserTransactions_def isNativeToken_def run_defs Let_def sample_defs parse_1000)
  show ?thesis using r b k by (simp add: sample_defs)
qed

text \<open>
  C7, amended, at a bridge that reports a balance without an allowance (blocked) and at
  one that reports both (enabled).
\<close>

theorem fee_requirements_gate_witness:
  "account sample_wallet \<noteq> []
   \<and> snd (checkFeeRequirements sample_wallet (Some unfunded_bridge) (account sample_wallet))
       = Inr \<lparr>hasBalance = True, hasAllowance = False, balance = ''3000000'', allowance = ''0''\<rparr>
   \<and> feeWarning (ui (checkUSDTFeeRequirements sample_wallet (Some unfunded_bridge) sample_ui)) =
        ''You need $3 USDT balance and approval for bridge fees''
   \<and> bridgeButtonDisabled sample_wallet
        (ui (checkUSDTFeeRequirements sample_wallet (Some unfunded_bridge) sample_ui))
   \<and> \<not> bridgeButtonDisabled sample_wallet
        (ui (checkUSDTFeeRequirements sample_wallet (Some sample_bridge) sample_ui))"
proof -
  have h1: "account sample_wallet \<noteq> []" by (simp add: sample_defs)
  have s3: "toString 3000000 = ''3000000''" by (simp add: toString_def show_nat.simps)
  have r: "snd (checkFeeRequirements sample_wallet (Some unfunded_bridge) (account sample_wallet))
       = Inr \<lparr>hasBalance = True, hasAllowance = False, balance = ''3000000'', allowance = ''0''\<rparr>"
    by (simp add: checkFeeRequirements_def run_defs fee_status_of_def s3 toString_0 sample_defs)
  have ok: "\<not> bridgeButtonDisabled sample_wallet
        (ui (checkUSDTFeeRequirements sample_wallet (Some sample_bridge) sample_ui))"
    by (simp add: checkUSDTFeeRequirements_def bridgeButtonDisabled_def checkFeeRequirements_def
        run_defs fee_status_of_def sample_defs)
  from fee_requirements_gate
         [where w = sample_wallet and bridge = sample_bridge and b = "Some unfunded_bridge"
            and s = sample_ui and l = sample_lib and tc = sample_erc20 and g = sample_tokens,
          OF h1]
  show ?thesis using h1 r ok by simp
qed

text \<open>
  C4 as stated fails: a read that throws comes back as a successful result with the
  status 0, \<open>Pending\<close>.
\<close>

theorem getTransaction_failure_counterexample:
  "bc_getTransaction failing_bridge ''0xabc'' = Inl (CallException ''call revert'')
   \<and> snd (getTransaction sample_lib (Some failing_bridge) ''0xabc'') =
       Inr \<lparr>bt_txId = ''0xabc'', bt_user = [], bt_token = [], bt_amount = ''0'', bt_fee = ''0'',
            bt_sourceChain = 0, bt_targetChain = 0, bt_targetAddress = [], bt_timestamp = 0,
            bt_status = 0\<rparr>"
  by (simp add: getTransaction_def run_defs empty_transaction_def sample_defs)

text \<open>C4, amended, at a bridge whose read reverts.\<close>

theorem getTransaction_failure_placeholder_witness:
  "bc_getTransaction failing_bridge ''0xabc'' = Inl (CallException ''call revert'')
   \<and> getTransaction sample_lib (Some failing_bridge) ''0xabc'' =
       ([Bridge_getTransaction ''0xabc''], Inr (empty_transaction ''0xabc''))
   \<and> bt_status (empty_transaction ''0xabc'') = status_code Pending"
proof -
  have h1: "bc_getTransaction failing_bridge ''0xabc'' = Inl (CallException ''call revert'')"
    by (simp add: sample_defs)
  from getTransaction_failure_placeholder [OF h1, of sample_lib]
  show ?thesis using h1 by blast
qed

text \<open>
  C5 as stated fails: with two handles known and an enumeration that throws, the result
  is the empty list, with no error entry.
\<close>

theorem refresh_failure_counterexample:
  "userTransactions sample_ui = [''0xabc'', ''0xdef'']
   \<and> bc_getUserTransactions failing_bridge (account sample_wallet) = Inl (CallException ''call revert'')
   \<and> loadUserTransactions sample_wallet (Some failing_bridge) sample_ui =
       \<lparr>ui = sample_ui\<lparr>userTransactions := []\<rparr>, alerts = [],
        issued = [Bridge_getUserTransactions ''0xUser'']\<rparr>"
  by (simp add: loadUserTransactions_def getUserTransactions_def run_defs sample_defs)

text \<open>C5, amended, at a bridge that lists two handles.\<close>

theorem getUserTransactions_all_or_nothing_witness:
  "account sample_wallet \<noteq> []
   \<and> bc_getUserTransactions sample_bridge (account sample_wallet) = Inr (Some [''0xabc'', ''0xdef''])
   \<and> loadUserTransactions sample_wallet (Some sample_bridge) (sample_ui\<lparr>userTransactions := []\<rparr>) =
       \<lparr>ui = sample_ui\<lparr>userTransactions := [''0xabc'', ''0xdef'']\<rparr>, alerts = [],
        issued = [Bridge_getUserTransactions (account sample_wallet)]\<rparr>"
proof -
  have h1: "account sample_wallet \<noteq> []" by (simp add: sample_defs)
  have h2: "bc_getUserTransactions sample_bridge (account sample_wallet)
              = Inr (Some [''0xabc'', ''0xdef''])"
    by (simp add: sample_defs)
  from getUserTransactions_all_or_nothing
         [OF h1, of sample_bridge "sample_ui\<lparr>userTransactions := []\<rparr>"]
  show ?thesis using h1 h2 by simp
qed

end
